theory Spec2Isabelle
  imports Complex_Main
begin

section \<open>Numeric helpers of the host platform\<close>

text \<open>
  JavaScript numbers are modelled as HOL reals; rounding is not modelled. NaN and the
  infinities of IEEE doubles appear only in the second model of the tick (type
  \<open>number\<close> below), which the section on elapsed time uses.
  \<^verbatim>\<open>Math.atan2(y, x)\<close> is the angle of the point \<open>(x, y)\<close>; every call of the
  simulator passes a positive constant as \<open>x\<close>.
  \<^verbatim>\<open>THREE.MathUtils.lerp(x, y, t)\<close> is \<open>(1 - t) * x + t * y\<close>.
\<close>

definition atan2 :: "real \<Rightarrow> real \<Rightarrow> real" where
  "atan2 y x =
     (if 0 < x then arctan (y / x)
      else if x < 0 then (if 0 \<le> y then arctan (y / x) + pi else arctan (y / x) - pi)
      else if 0 < y then pi / 2
      else if y < 0 then - (pi / 2)
      else 0)"

definition lerp :: "real \<Rightarrow> real \<Rightarrow> real \<Rightarrow> real" where
  "lerp x y t = (1 - t) * x + t * y"

section \<open>Terrain height field\<close>

text \<open>
  \<^verbatim>\<open>getTerrainHeight\<close> of \<^verbatim>\<open>src/components/DesignSpecs.tsx\<close>: the three bands are
  accumulated into \<open>y\<close>; inside the road band the accumulated value is scaled and the
  two ripples are added; the result is clamped from below at \<open>-5\<close>.
\<close>

definition getTerrainHeight :: "real \<Rightarrow> real \<Rightarrow> real" where
  "getTerrainHeight x z =
     (let y0 = sin (x * 0.1) * cos (z * 0.1) * 2.0;
          y1 = y0 + sin (x * 0.3 + z * 0.2) * 0.5;
          y2 = y1 + cos (x * 0.5) * 0.2;
          distFromCenter = \<bar>z\<bar>;
          y3 = (if distFromCenter < 4
                then y2 * 0.6 + sin (x * 1.5) * 0.15 + cos (x * 3.5) * 0.05
                else y2)
      in max (- 5) y3)"

text \<open>
  The reference definition, written from the words of the specification: three additive
  bands; inside the band \<open>\<bar>z\<bar> < 4\<close> only the large-scale band is attenuated (by the
  factor the source uses) and two ripple terms are added; floor clamp at \<open>-5\<close>.
\<close>

definition height_reference :: "real \<Rightarrow> real \<Rightarrow> real" where
  "height_reference x z =
     (let dunes = sin (x * 0.1) * cos (z * 0.1) * 2.0;
          bumps = sin (x * 0.3 + z * 0.2) * 0.5;
          roughness = cos (x * 0.5) * 0.2;
          ripples = sin (x * 1.5) * 0.15 + cos (x * 3.5) * 0.05
      in max (- 5) (if \<bar>z\<bar> < 4 then dunes * 0.6 + bumps + roughness + ripples
                    else dunes + bumps + roughness))"

text \<open>
  The same bands with the road-band scaling as the source applies it: to the sum of the
  three bands.
\<close>

definition height_scaled_sum :: "real \<Rightarrow> real \<Rightarrow> real" where
  "height_scaled_sum x z =
     (let dunes = sin (x * 0.1) * cos (z * 0.1) * 2.0;
          bumps = sin (x * 0.3 + z * 0.2) * 0.5;
          roughness = cos (x * 0.5) * 0.2;
          ripples = sin (x * 1.5) * 0.15 + cos (x * 3.5) * 0.05
      in max (- 5) (if \<bar>z\<bar> < 4 then (dunes + bumps + roughness) * 0.6 + ripples
                    else dunes + bumps + roughness))"

section \<open>Simulation state\<close>

datatype MissionState = DRIVE_OUT | SCAN | SAMPLE | RETURN

text \<open>
  The mutable variables of the animation closure and the scene-graph fields the tick
  writes. Fields are named after the source expressions, e.g. \<open>rockerL_rotation_z\<close> is
  \<^verbatim>\<open>rover.rockerL.rotation.z\<close>. The dust particles, the camera target and the renderer
  call are display-only and are not part of the model.
\<close>

record Rover =
  missionState :: MissionState
  stateTimer :: real
  roverPos_x :: real
  roverPos_z :: real
  root_position_x :: real
  root_position_y :: real
  root_position_z :: real
  root_rotation_z :: real
  root_rotation_x :: real
  rockerL_rotation_z :: real
  rockerR_rotation_z :: real
  wheels_rotation_x :: "real list"
  arm_base_rotation_y :: real
  arm_shoulder_rotation_z :: real
  arm_elbow_rotation_z :: real
  tail_base_rotation_y :: real
  tail_mid_rotation_z :: real
  missionPhase :: string

text \<open>The state right after \<^verbatim>\<open>buildRover()\<close> and the declarations before \<^verbatim>\<open>animate\<close>.\<close>

definition initial_rover :: Rover where
  "initial_rover =
     \<lparr> missionState = DRIVE_OUT, stateTimer = 0,
       roverPos_x = - 20, roverPos_z = 0,
       root_position_x = 0, root_position_y = 0, root_position_z = 0,
       root_rotation_z = 0, root_rotation_x = 0,
       rockerL_rotation_z = 0, rockerR_rotation_z = 0,
       wheels_rotation_x = replicate 6 (pi / 2),
       arm_base_rotation_y = 0, arm_shoulder_rotation_z = 0, arm_elbow_rotation_z = 0,
       tail_base_rotation_y = 0, tail_mid_rotation_z = pi / 3,
       missionPhase = ''INITIALIZING'' \<rparr>"

section \<open>One tick of \<^verbatim>\<open>animate\<close>\<close>

text \<open>\<^verbatim>\<open>stateTimer += dt\<close>, then step 1 (kinematic controller) with the terrain loop.\<close>

definition isMoving :: "Rover \<Rightarrow> bool" where
  "isMoving s = (missionState s = DRIVE_OUT \<or> missionState s = RETURN)"

definition update_position :: "real \<Rightarrow> Rover \<Rightarrow> Rover" where
  "update_position dt s =
     (let s1 = s\<lparr>stateTimer := stateTimer s + dt\<rparr>
      in if missionState s1 = DRIVE_OUT \<or> missionState s1 = RETURN
         then (let s2 = s1\<lparr>roverPos_x := roverPos_x s1 + 3.0 * dt\<rparr>
               in if roverPos_x s2 > 60
                  then s2\<lparr>roverPos_x := - 60, missionState := DRIVE_OUT, stateTimer := 0\<rparr>
                  else s2)
         else s1)"

text \<open>Step 2 (terrain snap): root position and damped orientation.\<close>

definition calculate_physics :: "(real \<Rightarrow> real \<Rightarrow> real) \<Rightarrow> real \<Rightarrow> Rover \<Rightarrow> Rover" where
  "calculate_physics h dt s =
     (let hCenter = h (roverPos_x s) (roverPos_z s);
          offset = 1.2;
          hFront = h (roverPos_x s + offset) (roverPos_z s);
          hBack = h (roverPos_x s - offset) (roverPos_z s);
          hLeft = h (roverPos_x s) (roverPos_z s + 0.8);
          hRight = h (roverPos_x s) (roverPos_z s - 0.8);
          pitch = atan2 (hFront - hBack) (offset * 2);
          roll = atan2 (hLeft - hRight) 1.6
      in s\<lparr>root_position_x := roverPos_x s,
            root_position_y := hCenter + 0.73,
            root_position_z := roverPos_z s,
            root_rotation_z := lerp (root_rotation_z s) pitch (dt * 5),
            root_rotation_x := lerp (root_rotation_x s) (- roll) (dt * 5)\<rparr>)"

text \<open>Step 3 (rocker-bogie articulation).\<close>

definition suspension_articulation :: "(real \<Rightarrow> real \<Rightarrow> real) \<Rightarrow> Rover \<Rightarrow> Rover" where
  "suspension_articulation h s =
     (let hFL = h (roverPos_x s + 1.0) (roverPos_z s + 0.8);
          hRL = h (roverPos_x s - 1.0) (roverPos_z s + 0.8);
          rockerAngleL = atan2 (hFL - hRL) 2.0;
          hFR = h (roverPos_x s + 1.0) (roverPos_z s - 0.8);
          hRR = h (roverPos_x s - 1.0) (roverPos_z s - 0.8);
          rockerAngleR = atan2 (hFR - hRR) 2.0
      in s\<lparr>rockerL_rotation_z := (rockerAngleL - root_rotation_z s) * 0.8,
            rockerR_rotation_z := (rockerAngleR - root_rotation_z s) * 0.8\<rparr>)"

text \<open>Wheel rotation, applied when the tick started in a moving phase.\<close>

definition wheel_rotation :: "bool \<Rightarrow> real \<Rightarrow> Rover \<Rightarrow> Rover" where
  "wheel_rotation moving dt s =
     (if moving then s\<lparr>wheels_rotation_x := map (\<lambda>w. w - 8.0 * dt) (wheels_rotation_x s)\<rparr>
      else s)"

text \<open>The mission \<^verbatim>\<open>switch\<close>, on the state as the first step left it.\<close>

definition mission_logic :: "real \<Rightarrow> real \<Rightarrow> Rover \<Rightarrow> Rover" where
  "mission_logic dt time s =
     (case missionState s of
        DRIVE_OUT \<Rightarrow>
          (let s1 = s\<lparr>missionPhase := ''TRAVERSING SECTOR 7'',
                      arm_base_rotation_y := lerp (arm_base_rotation_y s) 0 (dt * 2),
                      arm_shoulder_rotation_z :=
                        lerp (arm_shoulder_rotation_z s) (- (pi / 2)) (dt * 2)\<rparr>
           in if stateTimer s1 > 6 then s1\<lparr>missionState := SCAN, stateTimer := 0\<rparr> else s1)
      | SCAN \<Rightarrow>
          (let s1 = s\<lparr>missionPhase := ''ENVIRONMENTAL SCANNING'',
                      tail_base_rotation_y := sin (time * 2) * 0.8,
                      tail_mid_rotation_z := pi / 3 + sin (time * 3) * 0.2\<rparr>
           in if stateTimer s1 > 3 then s1\<lparr>missionState := SAMPLE, stateTimer := 0\<rparr> else s1)
      | SAMPLE \<Rightarrow>
          (let s1 = s\<lparr>missionPhase := ''SAMPLE ACQUISITION'',
                      tail_base_rotation_y := lerp (tail_base_rotation_y s) 0 dt,
                      arm_base_rotation_y := lerp (arm_base_rotation_y s) (pi / 4) (dt * 2),
                      arm_shoulder_rotation_z := lerp (arm_shoulder_rotation_z s) 0 (dt * 2),
                      arm_elbow_rotation_z :=
                        lerp (arm_elbow_rotation_z s) (- (pi / 2)) (dt * 2)\<rparr>
           in if stateTimer s1 > 4 then s1\<lparr>missionState := RETURN, stateTimer := 0\<rparr> else s1)
      | RETURN \<Rightarrow>
          (let s1 = s\<lparr>missionPhase := ''RESUMING TRAVERSE''\<rparr>
           in if stateTimer s1 > 3 then s1\<lparr>missionState := DRIVE_OUT, stateTimer := 0\<rparr>
              else s1))"

text \<open>
  The whole tick over a height field \<open>h\<close>; \<open>dt\<close> is \<^verbatim>\<open>clock.getDelta()\<close> and \<open>time\<close> is
  \<^verbatim>\<open>clock.getElapsedTime()\<close>. \<open>animate\<close> is the tick of the source, over
  \<open>getTerrainHeight\<close>.
\<close>

definition animate_on :: "(real \<Rightarrow> real \<Rightarrow> real) \<Rightarrow> real \<Rightarrow> real \<Rightarrow> Rover \<Rightarrow> Rover" where
  "animate_on h dt time s =
     mission_logic dt time
       (wheel_rotation (isMoving s) dt
          (suspension_articulation h
             (calculate_physics h dt (update_position dt s))))"

definition animate :: "real \<Rightarrow> real \<Rightarrow> Rover \<Rightarrow> Rover" where
  "animate dt time s = animate_on getTerrainHeight dt time s"

text \<open>
  A run of frames from elapsed time \<open>time\<close>: each frame's \<open>dt\<close> is added to the clock
  and the tick sees the new elapsed time.
\<close>

fun run :: "real list \<Rightarrow> real \<Rightarrow> Rover \<Rightarrow> Rover" where
  "run [] time s = s"
| "run (dt # dts) time s = run dts (time + dt) (animate dt (time + dt) s)"

section \<open>The mission cycle, abstractly\<close>

text \<open>
  The successor of a phase in the cycle and the dwell constant tested in its
  \<^verbatim>\<open>case\<close>; \<open>loop_terrain\<close> is the condition under which the first step of the tick
  takes the \<^verbatim>\<open>// Loop terrain\<close> branch.
\<close>

fun next_phase :: "MissionState \<Rightarrow> MissionState" where
  "next_phase DRIVE_OUT = SCAN"
| "next_phase SCAN = SAMPLE"
| "next_phase SAMPLE = RETURN"
| "next_phase RETURN = DRIVE_OUT"

fun dwell :: "MissionState \<Rightarrow> real" where
  "dwell DRIVE_OUT = 6"
| "dwell SCAN = 3"
| "dwell SAMPLE = 4"
| "dwell RETURN = 3"

definition loop_terrain :: "real \<Rightarrow> Rover \<Rightarrow> bool" where
  "loop_terrain dt s = (isMoving s \<and> 60 < roverPos_x s + 3 * dt)"

text \<open>
  Phase, phase timer and longitudinal position evolve on their own: \<open>phase_step\<close> is
  the tick restricted to these three variables (lemma \<open>phase_view_animate_on\<close>).
\<close>

definition phase_view :: "Rover \<Rightarrow> MissionState \<times> real \<times> real" where
  "phase_view s = (missionState s, stateTimer s, roverPos_x s)"

fun phase_step :: "real \<Rightarrow> MissionState \<times> real \<times> real \<Rightarrow> MissionState \<times> real \<times> real" where
  "phase_step dt (DRIVE_OUT, t, x) =
     (if 60 < x + 3 * dt then (DRIVE_OUT, 0, - 60)
      else if 6 < t + dt then (SCAN, 0, x + 3 * dt)
      else (DRIVE_OUT, t + dt, x + 3 * dt))"
| "phase_step dt (SCAN, t, x) =
     (if 3 < t + dt then (SAMPLE, 0, x) else (SCAN, t + dt, x))"
| "phase_step dt (SAMPLE, t, x) =
     (if 4 < t + dt then (RETURN, 0, x) else (SAMPLE, t + dt, x))"
| "phase_step dt (RETURN, t, x) =
     (if 60 < x + 3 * dt then (DRIVE_OUT, 0, - 60)
      else if 3 < t + dt then (DRIVE_OUT, 0, x + 3 * dt)
      else (RETURN, t + dt, x + 3 * dt))"

fun phase_steps :: "real list \<Rightarrow> MissionState \<times> real \<times> real \<Rightarrow> MissionState \<times> real \<times> real" where
  "phase_steps [] v = v"
| "phase_steps (dt # dts) v = phase_steps dts (phase_step dt v)"

section \<open>Easing\<close>

text \<open>
  \<open>eases_to rate dt old target new\<close>: \<open>new\<close> is the linear blend of \<open>old\<close> and
  \<open>target\<close> with factor \<open>rate * dt\<close>, and lies between them when the factor is at
  most one.
\<close>

definition eases_to :: "real \<Rightarrow> real \<Rightarrow> real \<Rightarrow> real \<Rightarrow> real \<Rightarrow> bool" where
  "eases_to rate dt old target new =
     (new = old + (target - old) * (rate * dt) \<and>
      (rate * dt \<le> 1 \<longrightarrow> min old target \<le> new \<and> new \<le> max old target))"

text \<open>The tick up to, and without, the mission \<^verbatim>\<open>switch\<close>.\<close>

definition before_switch :: "(real \<Rightarrow> real \<Rightarrow> real) \<Rightarrow> real \<Rightarrow> Rover \<Rightarrow> Rover" where
  "before_switch h dt s =
     wheel_rotation (isMoving s) dt
       (suspension_articulation h (calculate_physics h dt (update_position dt s)))"

section \<open>Teardown of the scene\<close>

text \<open>
  The cleanup closure returned by the effect of \<^verbatim>\<open>Rover3DScene\<close>:
  \<^verbatim>\<open>window.removeEventListener('resize', handleResize);
  if (mountRef.current) mountRef.current.removeChild(renderer.domElement);
  renderer.dispose();\<close>
  The resources are the resize listener (registered or not), the children of the mount
  element (\<open>None\<close> when \<^verbatim>\<open>mountRef.current\<close> is null) and the number of times the
  renderer has been disposed. As in the DOM, removing a listener that is not registered
  does nothing, and \<^verbatim>\<open>removeChild\<close> of a node that is not a child raises
  \<^verbatim>\<open>NotFoundError\<close>, which ends the closure before \<^verbatim>\<open>renderer.dispose()\<close>.
\<close>

datatype dom_error = NotFoundError

record Resources =
  resize_listener :: bool
  mountRef_current :: "nat list option"
  renderer_disposals :: nat

definition renderer_domElement :: nat where
  "renderer_domElement = 0"

definition removeChild :: "nat \<Rightarrow> nat list \<Rightarrow> dom_error + nat list" where
  "removeChild child children =
     (if child \<in> set children then Inr (remove1 child children) else Inl NotFoundError)"

definition teardown :: "Resources \<Rightarrow> dom_error + Resources" where
  "teardown r =
     (let r1 = r\<lparr>resize_listener := False\<rparr>
      in case mountRef_current r1 of
           None \<Rightarrow> Inr (r1\<lparr>renderer_disposals := Suc (renderer_disposals r1)\<rparr>)
         | Some children \<Rightarrow>
             (case removeChild renderer_domElement children of
                Inl e \<Rightarrow> Inl e
              | Inr rest \<Rightarrow>
                  Inr (r1\<lparr>mountRef_current := Some rest,
                          renderer_disposals := Suc (renderer_disposals r1)\<rparr>)))"

definition teardown_twice :: "Resources \<Rightarrow> dom_error + Resources" where
  "teardown_twice r = (case teardown r of Inl e \<Rightarrow> Inl e | Inr r1 \<Rightarrow> teardown r1)"

definition mounted :: Resources where
  "mounted = \<lparr> resize_listener = True, mountRef_current = Some [renderer_domElement],
               renderer_disposals = 0 \<rparr>"

section \<open>Numbers with infinities and NaN\<close>


































section \<open>Basic facts about the tick\<close>

lemma update_position_fields:
  "missionState (update_position dt s) = (if loop_terrain dt s then DRIVE_OUT else missionState s)"
  "stateTimer (update_position dt s) = (if loop_terrain dt s then 0 else stateTimer s + dt)"
  "roverPos_x (update_position dt s) =
     (if isMoving s then (if 60 < roverPos_x s + 3 * dt then - 60 else roverPos_x s + 3 * dt)
      else roverPos_x s)"
  "roverPos_z (update_position dt s) = roverPos_z s"
  by (simp_all add: update_position_def loop_terrain_def isMoving_def Let_def)

lemma phase_view_animate_on:
  "phase_view (animate_on h dt time s) = phase_step dt (phase_view s)"
  by (cases "missionState s")
     (simp_all add: phase_view_def animate_on_def mission_logic_def wheel_rotation_def
        suspension_articulation_def calculate_physics_def update_position_def isMoving_def
        Let_def)

lemma phase_view_animate: "phase_view (animate dt time s) = phase_step dt (phase_view s)"
  by (simp add: animate_def phase_view_animate_on)

lemma phase_view_run: "phase_view (run dts time s) = phase_steps dts (phase_view s)"
  by (induction dts arbitrary: time s) (simp_all add: phase_view_animate)

lemma phase_view_initial: "phase_view initial_rover = (DRIVE_OUT, 0, - 20)"
  by (simp add: phase_view_def initial_rover_def)

lemma roverPos_z_animate_on: "roverPos_z (animate_on h dt time s) = roverPos_z s"
  by (cases "missionState (update_position dt s)")
     (simp_all add: animate_on_def mission_logic_def wheel_rotation_def
        suspension_articulation_def calculate_physics_def update_position_fields Let_def)

lemma roverPos_z_run: "roverPos_z (run dts time s) = roverPos_z s"
  by (induction dts arbitrary: time s) (simp_all add: animate_def roverPos_z_animate_on)

lemma atan2_pos: "0 < x \<Longrightarrow> atan2 y x = arctan (y / x)"
  by (simp add: atan2_def)

lemma mission_logic_keeps:
  "roverPos_x (mission_logic dt time s) = roverPos_x s"
  "roverPos_z (mission_logic dt time s) = roverPos_z s"
  "root_position_x (mission_logic dt time s) = root_position_x s"
  "root_position_y (mission_logic dt time s) = root_position_y s"
  "root_position_z (mission_logic dt time s) = root_position_z s"
  "root_rotation_z (mission_logic dt time s) = root_rotation_z s"
  "root_rotation_x (mission_logic dt time s) = root_rotation_x s"
  "rockerL_rotation_z (mission_logic dt time s) = rockerL_rotation_z s"
  "rockerR_rotation_z (mission_logic dt time s) = rockerR_rotation_z s"
  by (cases "missionState s"; simp add: mission_logic_def Let_def)+

lemma wheel_rotation_keeps:
  "roverPos_x (wheel_rotation b dt s) = roverPos_x s"
  "roverPos_z (wheel_rotation b dt s) = roverPos_z s"
  "root_position_x (wheel_rotation b dt s) = root_position_x s"
  "root_position_y (wheel_rotation b dt s) = root_position_y s"
  "root_position_z (wheel_rotation b dt s) = root_position_z s"
  "root_rotation_z (wheel_rotation b dt s) = root_rotation_z s"
  "root_rotation_x (wheel_rotation b dt s) = root_rotation_x s"
  "rockerL_rotation_z (wheel_rotation b dt s) = rockerL_rotation_z s"
  "rockerR_rotation_z (wheel_rotation b dt s) = rockerR_rotation_z s"
  "missionState (wheel_rotation b dt s) = missionState s"
  "stateTimer (wheel_rotation b dt s) = stateTimer s"
  "arm_base_rotation_y (wheel_rotation b dt s) = arm_base_rotation_y s"
  "arm_shoulder_rotation_z (wheel_rotation b dt s) = arm_shoulder_rotation_z s"
  "arm_elbow_rotation_z (wheel_rotation b dt s) = arm_elbow_rotation_z s"
  "tail_base_rotation_y (wheel_rotation b dt s) = tail_base_rotation_y s"
  "tail_mid_rotation_z (wheel_rotation b dt s) = tail_mid_rotation_z s"
  by (simp_all add: wheel_rotation_def)

lemma animate_on_pose:
  "roverPos_x (animate_on h dt time s) = roverPos_x (update_position dt s)"
  "root_position_x (animate_on h dt time s) = roverPos_x (update_position dt s)"
  "root_position_y (animate_on h dt time s) =
     h (roverPos_x (update_position dt s)) (roverPos_z s) + 0.73"
  "root_position_z (animate_on h dt time s) = roverPos_z s"
  "root_rotation_z (animate_on h dt time s) =
     lerp (root_rotation_z s)
       (atan2 (h (roverPos_x (update_position dt s) + 1.2) (roverPos_z s)
             - h (roverPos_x (update_position dt s) - 1.2) (roverPos_z s)) (1.2 * 2))
       (dt * 5)"
  "root_rotation_x (animate_on h dt time s) =
     lerp (root_rotation_x s)
       (- atan2 (h (roverPos_x (update_position dt s)) (roverPos_z s + 0.8)
               - h (roverPos_x (update_position dt s)) (roverPos_z s - 0.8)) 1.6)
       (dt * 5)"
  "rockerL_rotation_z (animate_on h dt time s) =
     (atan2 (h (roverPos_x (update_position dt s) + 1.0) (roverPos_z s + 0.8)
           - h (roverPos_x (update_position dt s) - 1.0) (roverPos_z s + 0.8)) 2.0
      - root_rotation_z (animate_on h dt time s)) * 0.8"
  "rockerR_rotation_z (animate_on h dt time s) =
     (atan2 (h (roverPos_x (update_position dt s) + 1.0) (roverPos_z s - 0.8)
           - h (roverPos_x (update_position dt s) - 1.0) (roverPos_z s - 0.8)) 2.0
      - root_rotation_z (animate_on h dt time s)) * 0.8"
  by (simp_all add: animate_on_def mission_logic_keeps wheel_rotation_keeps
        suspension_articulation_def calculate_physics_def Let_def update_position_fields
        update_position_def)

lemma lerp_eases_to:
  assumes "0 \<le> dt" and "0 \<le> rate"
  shows "eases_to rate dt a b (lerp a b (dt * rate))"
proof -
  have eq: "lerp a b (dt * rate) = a + (b - a) * (rate * dt)"
    by (simp add: lerp_def algebra_simps)
  have "min a b \<le> a + (b - a) * t \<and> a + (b - a) * t \<le> max a b" if "0 \<le> t" "t \<le> 1" for t
  proof (cases "a \<le> b")
    case True
    then have nn: "0 \<le> b - a" by simp
    from nn that(1) have lo: "0 \<le> (b - a) * t" by (rule mult_nonneg_nonneg)
    from that(2) nn have "(b - a) * t \<le> (b - a) * 1" by (rule mult_left_mono)
    then have le: "(b - a) * t \<le> b - a" by simp
    from le have "a + (b - a) * t \<le> b" by linarith
    moreover from lo have "a \<le> a + (b - a) * t" by linarith
    ultimately show ?thesis using True by simp
  next
    case False
    then have np: "b - a \<le> 0" by simp
    from np that(1) have hi: "(b - a) * t \<le> 0" by (rule mult_nonpos_nonneg)
    from that(2) np have "(b - a) * 1 \<le> (b - a) * t" by (rule mult_left_mono_neg)
    then have ge: "b - a \<le> (b - a) * t" by simp
    from ge have "b \<le> a + (b - a) * t" by linarith
    moreover from hi have "a + (b - a) * t \<le> a" by linarith
    ultimately show ?thesis using False by simp
  qed
  moreover have "0 \<le> rate * dt" using assms by simp
  ultimately show ?thesis by (simp add: eases_to_def eq)
qed

lemma mission_logic_appendages:
  "missionState s = DRIVE_OUT \<Longrightarrow>
     arm_base_rotation_y (mission_logic dt time s) = lerp (arm_base_rotation_y s) 0 (dt * 2) \<and>
     arm_shoulder_rotation_z (mission_logic dt time s) =
       lerp (arm_shoulder_rotation_z s) (- (pi / 2)) (dt * 2) \<and>
     arm_elbow_rotation_z (mission_logic dt time s) = arm_elbow_rotation_z s \<and>
     tail_base_rotation_y (mission_logic dt time s) = tail_base_rotation_y s \<and>
     tail_mid_rotation_z (mission_logic dt time s) = tail_mid_rotation_z s"
  "missionState s = SCAN \<Longrightarrow>
     arm_base_rotation_y (mission_logic dt time s) = arm_base_rotation_y s \<and>
     arm_shoulder_rotation_z (mission_logic dt time s) = arm_shoulder_rotation_z s \<and>
     arm_elbow_rotation_z (mission_logic dt time s) = arm_elbow_rotation_z s \<and>
     tail_base_rotation_y (mission_logic dt time s) = sin (time * 2) * 0.8 \<and>
     tail_mid_rotation_z (mission_logic dt time s) = pi / 3 + sin (time * 3) * 0.2"
  "missionState s = SAMPLE \<Longrightarrow>
     arm_base_rotation_y (mission_logic dt time s) = lerp (arm_base_rotation_y s) (pi / 4) (dt * 2) \<and>
     arm_shoulder_rotation_z (mission_logic dt time s) = lerp (arm_shoulder_rotation_z s) 0 (dt * 2) \<and>
     arm_elbow_rotation_z (mission_logic dt time s) =
       lerp (arm_elbow_rotation_z s) (- (pi / 2)) (dt * 2) \<and>
     tail_base_rotation_y (mission_logic dt time s) = lerp (tail_base_rotation_y s) 0 dt \<and>
     tail_mid_rotation_z (mission_logic dt time s) = tail_mid_rotation_z s"
  "missionState s = RETURN \<Longrightarrow>
     arm_base_rotation_y (mission_logic dt time s) = arm_base_rotation_y s \<and>
     arm_shoulder_rotation_z (mission_logic dt time s) = arm_shoulder_rotation_z s \<and>
     arm_elbow_rotation_z (mission_logic dt time s) = arm_elbow_rotation_z s \<and>
     tail_base_rotation_y (mission_logic dt time s) = tail_base_rotation_y s \<and>
     tail_mid_rotation_z (mission_logic dt time s) = tail_mid_rotation_z s"
  by (simp_all add: mission_logic_def Let_def)

lemma before_switch_fields:
  "missionState (before_switch h dt s) = missionState (update_position dt s)"
  "arm_base_rotation_y (before_switch h dt s) = arm_base_rotation_y s"
  "arm_shoulder_rotation_z (before_switch h dt s) = arm_shoulder_rotation_z s"
  "arm_elbow_rotation_z (before_switch h dt s) = arm_elbow_rotation_z s"
  "tail_base_rotation_y (before_switch h dt s) = tail_base_rotation_y s"
  "tail_mid_rotation_z (before_switch h dt s) = tail_mid_rotation_z s"
  by (simp_all add: before_switch_def wheel_rotation_keeps suspension_articulation_def
        calculate_physics_def update_position_def Let_def)

lemma animate_on_switch: "animate_on h dt time s = mission_logic dt time (before_switch h dt s)"
  by (simp add: animate_on_def before_switch_def)

lemma first_tick_shoulder:
  "arm_shoulder_rotation_z (animate dt time initial_rover) = - (pi * dt)"
proof -
  have "missionState (update_position dt initial_rover) = DRIVE_OUT"
    by (simp add: update_position_fields initial_rover_def)
  then have "missionState (before_switch getTerrainHeight dt initial_rover) = DRIVE_OUT"
    by (simp add: before_switch_fields)
  from mission_logic_appendages(1) [OF this, of dt time] show ?thesis
    by (simp add: animate_def animate_on_switch before_switch_fields lerp_def initial_rover_def)
qed

text \<open>Half-second frames: the 101st frame enters RETURN at \<open>x = 59.5\<close>.\<close>

lemma half_second_frames:
  "phase_view (run (replicate 101 (1 / 2)) 0 initial_rover) = (RETURN, 0, 119 / 2)"
  unfolding phase_view_run phase_view_initial by (simp add: eval_nat_numeral)

text \<open>One-second frames: after 44 frames the rover is four seconds into a traverse at \<open>x = 58\<close>.\<close>

lemma one_second_frames:
  "phase_view (run (replicate 44 1) 0 initial_rover) = (DRIVE_OUT, 4, 58)"
  unfolding phase_view_run phase_view_initial by (simp add: eval_nat_numeral)

lemma phase_step_bounds:
  assumes "0 \<le> dt" and "phase_step dt (m, t, x) = (m', t', x')" and "- 60 \<le> x" and "x \<le> 60"
  shows "- 60 \<le> x' \<and> x' \<le> 60"
  using assms by (cases m) (auto split: if_splits)

lemma phase_steps_bounds:
  assumes "\<forall>d\<in>set dts. 0 \<le> d" and "phase_steps dts (m, t, x) = (m', t', x')"
    and "- 60 \<le> x" and "x \<le> 60"
  shows "- 60 \<le> x' \<and> x' \<le> 60"
  using assms
proof (induction dts arbitrary: m t x)
  case Nil
  then show ?case by simp
next
  case (Cons d dts)
  obtain m1 t1 x1 where st: "phase_step d (m, t, x) = (m1, t1, x1)"
    by (cases "phase_step d (m, t, x)") auto
  from Cons.prems have d: "0 \<le> d" by simp
  from phase_step_bounds [OF d st Cons.prems(3) Cons.prems(4)]
  have b: "- 60 \<le> x1" "x1 \<le> 60" by simp_all
  from Cons.prems have rest: "\<forall>d\<in>set dts. 0 \<le> d" by simp
  from Cons.prems(2) st have "phase_steps dts (m1, t1, x1) = (m', t', x')" by simp
  from Cons.IH [OF rest this b] show ?case .
qed

lemma roverPos_x_reachable:
  assumes "\<forall>d\<in>set dts. 0 \<le> d"
  shows "- 60 \<le> roverPos_x (run dts time initial_rover) \<and> roverPos_x (run dts time initial_rover) \<le> 60"
proof -
  have "phase_steps dts (DRIVE_OUT, 0, - 20) = phase_view (run dts time initial_rover)"
    by (simp add: phase_view_run phase_view_initial)
  then have "phase_steps dts (DRIVE_OUT, 0, - 20) =
      (missionState (run dts time initial_rover), stateTimer (run dts time initial_rover),
       roverPos_x (run dts time initial_rover))"
    by (simp add: phase_view_def)
  from phase_steps_bounds [OF assms this] show ?thesis by simp
qed

section \<open>Mission state machine\<close>

text \<open>
  C1 (as stated, refuted): every change of phase is triggered solely by the phase timer
  exceeding the dwell of the phase. With half-second frames from the start state, the
  rover enters RETURN at \<open>x = 59.5\<close>; the next frame takes the terrain loop and puts the
  machine back into the traverse phase although only half a second of the three-second
  dwell has passed.
\<close>

theorem return_left_before_dwell:
  "missionState (run (replicate 101 (1 / 2)) 0 initial_rover) = RETURN \<and>
   stateTimer (run (replicate 101 (1 / 2)) 0 initial_rover) + 1 / 2
     \<le> dwell (missionState (run (replicate 101 (1 / 2)) 0 initial_rover)) \<and>
   missionState (animate (1 / 2) 51 (run (replicate 101 (1 / 2)) 0 initial_rover)) = DRIVE_OUT"
proof -
  let ?s = "run (replicate 101 (1 / 2)) 0 initial_rover"
  have v: "missionState ?s = RETURN" "stateTimer ?s = 0" "roverPos_x ?s = 119 / 2"
    using half_second_frames by (simp_all add: phase_view_def)
  have "phase_view (animate (1 / 2) 51 ?s) = phase_step (1 / 2) (RETURN, 0, 119 / 2)"
    by (simp add: phase_view_animate half_second_frames)
  then have "missionState (animate (1 / 2) 51 ?s) = DRIVE_OUT"
    by (simp add: phase_view_def)
  with v show ?thesis by simp
qed

text \<open>
  C1 (amended): a tick keeps the phase or moves it to its successor in the cycle
  TRAVERSE, SCAN, SAMPLE, RETURN, TRAVERSE. Without a terrain loop in the tick, the
  phase changes exactly when the advanced phase timer exceeds the dwell (6, 3, 4, 3);
  a terrain loop (position past 60 in a moving phase) ends RETURN at once and restarts
  the timer of TRAVERSE without a change of phase. The timer is zero after every change
  of phase and after every terrain loop, and is advanced by \<open>dt\<close> otherwise.
\<close>

theorem mission_cycle_step:
  "missionState (animate dt time s) =
     (if (if loop_terrain dt s then missionState s = RETURN
          else dwell (missionState s) < stateTimer s + dt)
      then next_phase (missionState s) else missionState s) \<and>
   stateTimer (animate dt time s) =
     (if loop_terrain dt s \<or> dwell (missionState s) < stateTimer s + dt then 0
      else stateTimer s + dt)"
proof -
  have "phase_view (animate dt time s) = phase_step dt (missionState s, stateTimer s, roverPos_x s)"
    unfolding phase_view_animate by (simp add: phase_view_def)
  then show ?thesis
    by (cases "missionState s")
       (auto simp: phase_view_def loop_terrain_def isMoving_def split: if_splits)
qed

theorem mission_cycle_step_witness:
  "missionState (animate 7 7 initial_rover) = SCAN \<and> stateTimer (animate 7 7 initial_rover) = 0"
  using mission_cycle_step [of 7 7 initial_rover]
  by (simp add: loop_terrain_def isMoving_def initial_rover_def)

section \<open>Longitudinal position\<close>

text \<open>
  C6: in every state reached from the start by frames of non-negative duration the
  longitudinal position lies in \<open>[-60, 60]\<close>; a tick whose advanced position exceeds 60
  hands \<open>-60\<close> to the next tick; and the position decreases in a tick only by this wrap.
\<close>

theorem position_wraps:
  assumes "list_all (\<lambda>d. 0 \<le> d) dts" and "0 \<le> dt" and "s = run dts t0 initial_rover"
  shows "- 60 \<le> roverPos_x s \<and> roverPos_x s \<le> 60 \<and>
         (if isMoving s \<and> 60 < roverPos_x s + 3 * dt
          then roverPos_x (animate dt time s) = - 60
          else roverPos_x s \<le> roverPos_x (animate dt time s) \<and>
               roverPos_x (animate dt time s) \<le> 60)"
proof -
  from assms(1) have "\<forall>d\<in>set dts. 0 \<le> d"
    by (simp add: list_all_iff)
  from roverPos_x_reachable [OF this] assms(3)
  have b: "- 60 \<le> roverPos_x s \<and> roverPos_x s \<le> 60"
    by simp
  have "phase_view (animate dt time s) = phase_step dt (missionState s, stateTimer s, roverPos_x s)"
    unfolding phase_view_animate by (simp add: phase_view_def)
  then have "if isMoving s \<and> 60 < roverPos_x s + 3 * dt
          then roverPos_x (animate dt time s) = - 60
          else roverPos_x s \<le> roverPos_x (animate dt time s) \<and>
               roverPos_x (animate dt time s) \<le> 60"
    using assms(2) b
    by (cases "missionState s") (auto simp: phase_view_def isMoving_def split: if_splits)
  with b show ?thesis by simp
qed

theorem position_wraps_witness:
  "list_all (\<lambda>d. 0 \<le> d) (replicate 44 (1::real)) \<and> (0::real) \<le> 1 \<and>
   roverPos_x (run (replicate 44 1) 0 initial_rover) = 58 \<and>
   roverPos_x (animate 1 45 (run (replicate 44 1) 0 initial_rover)) = - 60"
proof -
  have a: "list_all (\<lambda>d. 0 \<le> d) (replicate 44 (1::real))"
    by (simp add: list_all_iff)
  have v: "missionState (run (replicate 44 1) 0 initial_rover) = DRIVE_OUT"
    "roverPos_x (run (replicate 44 1) 0 initial_rover) = 58"
    using one_second_frames by (simp_all add: phase_view_def)
  from position_wraps [OF a, of 1 "run (replicate 44 1) 0 initial_rover" 0 45] v a
  show ?thesis by (simp add: isMoving_def)
qed

text \<open>
  C10 (as stated, refuted): in a moving phase the longitudinal coordinate increases by
  \<open>3.0 * dt\<close>. After 44 one-second frames the rover traverses at \<open>x = 58\<close>; the next
  one-second frame leaves it at \<open>-60\<close>, not at \<open>61\<close>.
\<close>

theorem moving_tick_not_increment:
  "missionState (run (replicate 44 1) 0 initial_rover) = DRIVE_OUT \<and>
   roverPos_x (run (replicate 44 1) 0 initial_rover) = 58 \<and>
   roverPos_x (animate 1 45 (run (replicate 44 1) 0 initial_rover)) = - 60 \<and>
   roverPos_x (animate 1 45 (run (replicate 44 1) 0 initial_rover))
     \<noteq> roverPos_x (run (replicate 44 1) 0 initial_rover) + 3.0 * 1"
proof -
  let ?s = "run (replicate 44 1) 0 initial_rover"
  have v: "missionState ?s = DRIVE_OUT" "roverPos_x ?s = 58"
    using one_second_frames by (simp_all add: phase_view_def)
  have "phase_view (animate 1 45 ?s) = phase_step 1 (DRIVE_OUT, 4, 58)"
    by (simp add: phase_view_animate one_second_frames)
  then have "roverPos_x (animate 1 45 ?s) = - 60"
    by (simp add: phase_view_def)
  with v show ?thesis by simp
qed

text \<open>
  C10 (amended): a tick never modifies the lateral coordinate, which is 0 in every state
  reached from the start. The longitudinal coordinate is unchanged by a tick that starts
  in SCAN or SAMPLE; a tick that starts in TRAVERSE or in RETURN adds \<open>3.0 * dt\<close> to
  it (the same forward direction and speed for both), except that a sum above 60 is
  replaced by \<open>-60\<close>.
\<close>

theorem position_frame:
  "roverPos_z (animate dt time s) = roverPos_z s \<and>
   roverPos_z (run dts t0 initial_rover) = 0 \<and>
   roverPos_x (animate dt time s) =
     (case missionState s of
        SCAN \<Rightarrow> roverPos_x s
      | SAMPLE \<Rightarrow> roverPos_x s
      | _ \<Rightarrow> (if 60 < roverPos_x s + 3.0 * dt then - 60 else roverPos_x s + 3.0 * dt))"
proof -
  have "phase_view (animate dt time s) = phase_step dt (missionState s, stateTimer s, roverPos_x s)"
    unfolding phase_view_animate by (simp add: phase_view_def)
  then have "roverPos_x (animate dt time s) =
     (case missionState s of
        SCAN \<Rightarrow> roverPos_x s
      | SAMPLE \<Rightarrow> roverPos_x s
      | _ \<Rightarrow> (if 60 < roverPos_x s + 3.0 * dt then - 60 else roverPos_x s + 3.0 * dt))"
    by (cases "missionState s") (auto simp: phase_view_def split: if_splits)
  moreover have "roverPos_z (run dts t0 initial_rover) = 0"
    by (simp add: roverPos_z_run initial_rover_def)
  ultimately show ?thesis
    by (simp add: animate_def roverPos_z_animate_on)
qed

theorem position_frame_witness:
  "roverPos_z (animate 1 1 initial_rover) = 0 \<and> roverPos_x (animate 1 1 initial_rover) = - 17"
  using position_frame [of 1 1 initial_rover "[]" 0]
  by (simp add: initial_rover_def)

section \<open>Terrain\<close>

text \<open>
  C2 (as stated, refuted): the height equals the reference in which only the large-scale
  band is attenuated inside the road band. At the origin the source gives \<open>0.17\<close>, the
  reference \<open>0.25\<close>: the roughness band \<open>0.2\<close> is scaled by \<open>0.6\<close> as well.
\<close>

theorem height_differs_from_reference:
  "getTerrainHeight 0 0 = 17 / 100 \<and> height_reference 0 0 = 1 / 4 \<and>
   getTerrainHeight 0 0 \<noteq> height_reference 0 0"
  by (simp add: getTerrainHeight_def height_reference_def Let_def)

text \<open>
  C2 (amended): the height is the floor-clamped sum of the three bands; inside the road
  band \<open>\<bar>z\<bar> < 4\<close> the whole sum of the three bands is attenuated and the two ripple
  terms are added; outside the band the height equals the reference; the height is never
  below the floor \<open>-5\<close>.
\<close>

theorem height_scaled_in_band:
  "getTerrainHeight x z =
     (if \<bar>z\<bar> < 4 then height_scaled_sum x z else height_reference x z) \<and>
   - 5 \<le> getTerrainHeight x z"
  by (simp add: getTerrainHeight_def height_reference_def height_scaled_sum_def Let_def add.assoc)

theorem height_scaled_in_band_witness:
  "height_scaled_sum 0 0 = 17 / 100 \<and> - 5 \<le> getTerrainHeight 0 0"
  using height_scaled_in_band [of 0 0]
  by (simp add: height_scaled_sum_def Let_def)

section \<open>Pose solver\<close>

text \<open>
  C3: after every tick the pitch has been blended towards the arctangent of the
  front-minus-back height difference over twice the longitudinal offset \<open>1.2\<close>, the roll
  axis towards (the negation of) the arctangent of the left-minus-right height
  difference over twice the lateral offset \<open>0.8\<close>, and the vertical position is the
  terrain height at the vehicle centre plus \<open>0.73\<close>, with no smoothing.
\<close>

theorem pose_solver_targets:
  "root_rotation_z (animate dt time s) =
     lerp (root_rotation_z s)
       (arctan ((getTerrainHeight (roverPos_x (animate dt time s) + 1.2) (roverPos_z (animate dt time s))
               - getTerrainHeight (roverPos_x (animate dt time s) - 1.2) (roverPos_z (animate dt time s)))
              / (2 * 1.2)))
       (dt * 5) \<and>
   root_rotation_x (animate dt time s) =
     lerp (root_rotation_x s)
       (- arctan ((getTerrainHeight (roverPos_x (animate dt time s)) (roverPos_z (animate dt time s) + 0.8)
                 - getTerrainHeight (roverPos_x (animate dt time s)) (roverPos_z (animate dt time s) - 0.8))
                / (2 * 0.8)))
       (dt * 5) \<and>
   root_position_y (animate dt time s) =
     getTerrainHeight (roverPos_x (animate dt time s)) (roverPos_z (animate dt time s)) + 0.73 \<and>
   root_position_x (animate dt time s) = roverPos_x (animate dt time s) \<and>
   root_position_z (animate dt time s) = roverPos_z (animate dt time s)"
  by (simp add: animate_def animate_on_pose roverPos_z_animate_on atan2_pos)


theorem pose_solver_targets_witness:
  "root_position_y (animate 0 0 initial_rover) = getTerrainHeight (- 20) 0 + 0.73 \<and>
   root_position_x (animate 0 0 initial_rover) = - 20"
  using pose_solver_targets [of 0 0 initial_rover]
  by (simp add: animate_def animate_on_pose(1) roverPos_z_animate_on update_position_fields
        isMoving_def initial_rover_def)

section \<open>Suspension articulation\<close>

text \<open>
  C5: after every tick each rocker angle is the arctangent of the height difference
  between the points one half-wheelbase (\<open>1.0\<close>) ahead of and behind the position, at
  that side's lateral offset (\<open>+0.8\<close> left, \<open>-0.8\<close> right), over the full wheelbase, minus
  the smoothed pitch of this tick, times the coupling factor \<open>0.8 < 1\<close>.
\<close>

theorem rocker_angles:
  "rockerL_rotation_z (animate dt time s) =
     (arctan ((getTerrainHeight (roverPos_x (animate dt time s) + 1.0) (roverPos_z (animate dt time s) + 0.8)
             - getTerrainHeight (roverPos_x (animate dt time s) - 1.0) (roverPos_z (animate dt time s) + 0.8))
            / (2 * 1.0))
      - root_rotation_z (animate dt time s)) * 0.8 \<and>
   rockerR_rotation_z (animate dt time s) =
     (arctan ((getTerrainHeight (roverPos_x (animate dt time s) + 1.0) (roverPos_z (animate dt time s) - 0.8)
             - getTerrainHeight (roverPos_x (animate dt time s) - 1.0) (roverPos_z (animate dt time s) - 0.8))
            / (2 * 1.0))
      - root_rotation_z (animate dt time s)) * 0.8 \<and>
   (0.8 :: real) < 1"
  by (simp add: animate_def animate_on_pose roverPos_z_animate_on atan2_pos)


text \<open>
  C7: if two height fields agree at every point whose lateral coordinate is at most the
  vehicle's (they differ only on the left, at positive lateral offset), a tick from the
  same state gives the same right rocker angle over both; symmetrically for fields that
  agree at every point on the left and the left rocker angle.
\<close>

theorem rocker_sides_independent:
  "((\<forall>a b. b \<le> roverPos_z s \<longrightarrow> h1 a b = h2 a b) \<longrightarrow>
      rockerR_rotation_z (animate_on h1 dt time s) = rockerR_rotation_z (animate_on h2 dt time s)) \<and>
   ((\<forall>a b. roverPos_z s \<le> b \<longrightarrow> h1 a b = h2 a b) \<longrightarrow>
      rockerL_rotation_z (animate_on h1 dt time s) = rockerL_rotation_z (animate_on h2 dt time s))"
  by (simp add: animate_on_pose)

theorem rocker_sides_independent_witness:
  "rockerR_rotation_z (animate_on (\<lambda>a b. if 0 < b then getTerrainHeight a b + 1 else getTerrainHeight a b) 1 1 initial_rover)
     = rockerR_rotation_z (animate 1 1 initial_rover) \<and>
   rockerL_rotation_z (animate_on (\<lambda>a b. if b < 0 then getTerrainHeight a b + 1 else getTerrainHeight a b) 1 1 initial_rover)
     = rockerL_rotation_z (animate 1 1 initial_rover)"
proof -
  have z: "roverPos_z initial_rover = 0" by (simp add: initial_rover_def)
  have r: "\<forall>a b. b \<le> roverPos_z initial_rover \<longrightarrow>
      (if 0 < b then getTerrainHeight a b + 1 else getTerrainHeight a b) = getTerrainHeight a b"
    by (simp add: z)
  have l: "\<forall>a b. roverPos_z initial_rover \<le> b \<longrightarrow>
      (if b < 0 then getTerrainHeight a b + 1 else getTerrainHeight a b) = getTerrainHeight a b"
    by (simp add: z)
  from rocker_sides_independent
    [of initial_rover "\<lambda>a b. if 0 < b then getTerrainHeight a b + 1 else getTerrainHeight a b"
       getTerrainHeight 1 1] r
  have "rockerR_rotation_z (animate_on (\<lambda>a b. if 0 < b then getTerrainHeight a b + 1 else getTerrainHeight a b) 1 1 initial_rover)
     = rockerR_rotation_z (animate_on getTerrainHeight 1 1 initial_rover)"
    by blast
  moreover
  from rocker_sides_independent
    [of initial_rover "\<lambda>a b. if b < 0 then getTerrainHeight a b + 1 else getTerrainHeight a b"
       getTerrainHeight 1 1] l
  have "rockerL_rotation_z (animate_on (\<lambda>a b. if b < 0 then getTerrainHeight a b + 1 else getTerrainHeight a b) 1 1 initial_rover)
     = rockerL_rotation_z (animate_on getTerrainHeight 1 1 initial_rover)"
    by blast
  ultimately show ?thesis by (simp add: animate_def)
qed


section \<open>Easing of orientation and joints\<close>

text \<open>
  C4 (as stated, refuted): for every \<open>dt > 0\<close> the updated value lies between the
  previous value and the target. A first one-second tick from the start state moves the
  shoulder from \<open>0\<close> past its stow target \<open>-\<pi>/2\<close> to \<open>-\<pi>\<close>.
\<close>

theorem shoulder_overshoots_stow:
  "arm_shoulder_rotation_z initial_rover = 0 \<and>
   arm_shoulder_rotation_z (animate 1 1 initial_rover) = - pi \<and>
   - pi < - (pi / 2)"
  by (simp add: first_tick_shoulder) (simp add: initial_rover_def)

text \<open>
  C4 (amended): every smoothed quantity is updated by the linear blend
  \<open>new = old + (target - old) * (rate * dt)\<close> (rate 5 for pitch and roll, 2 for the
  arm joints, 1 for the mast yaw in SAMPLE), and for \<open>dt \<ge> 0\<close> the updated value lies
  between the previous value and the target whenever \<open>rate * dt \<le> 1\<close>. The mast angles
  in SCAN are set directly and no joint is touched in RETURN.
\<close>

theorem easing_is_linear_blend:
  assumes "0 \<le> dt"
  shows
   "eases_to 5 dt (root_rotation_z s)
      (atan2 (getTerrainHeight (roverPos_x (animate dt time s) + 1.2) (roverPos_z s)
            - getTerrainHeight (roverPos_x (animate dt time s) - 1.2) (roverPos_z s)) (1.2 * 2))
      (root_rotation_z (animate dt time s)) \<and>
    eases_to 5 dt (root_rotation_x s)
      (- atan2 (getTerrainHeight (roverPos_x (animate dt time s)) (roverPos_z s + 0.8)
              - getTerrainHeight (roverPos_x (animate dt time s)) (roverPos_z s - 0.8)) 1.6)
      (root_rotation_x (animate dt time s)) \<and>
    (case missionState (update_position dt s) of
       DRIVE_OUT \<Rightarrow>
         eases_to 2 dt (arm_base_rotation_y s) 0 (arm_base_rotation_y (animate dt time s)) \<and>
         eases_to 2 dt (arm_shoulder_rotation_z s) (- (pi / 2))
           (arm_shoulder_rotation_z (animate dt time s))
     | SCAN \<Rightarrow>
         tail_base_rotation_y (animate dt time s) = sin (time * 2) * 0.8 \<and>
         tail_mid_rotation_z (animate dt time s) = pi / 3 + sin (time * 3) * 0.2
     | SAMPLE \<Rightarrow>
         eases_to 1 dt (tail_base_rotation_y s) 0 (tail_base_rotation_y (animate dt time s)) \<and>
         eases_to 2 dt (arm_base_rotation_y s) (pi / 4) (arm_base_rotation_y (animate dt time s)) \<and>
         eases_to 2 dt (arm_shoulder_rotation_z s) 0 (arm_shoulder_rotation_z (animate dt time s)) \<and>
         eases_to 2 dt (arm_elbow_rotation_z s) (- (pi / 2))
           (arm_elbow_rotation_z (animate dt time s))
     | RETURN \<Rightarrow>
         arm_base_rotation_y (animate dt time s) = arm_base_rotation_y s \<and>
         arm_shoulder_rotation_z (animate dt time s) = arm_shoulder_rotation_z s \<and>
         arm_elbow_rotation_z (animate dt time s) = arm_elbow_rotation_z s \<and>
         tail_base_rotation_y (animate dt time s) = tail_base_rotation_y s \<and>
         tail_mid_rotation_z (animate dt time s) = tail_mid_rotation_z s)"
proof -
  have e5: "eases_to 5 dt a b (lerp a b (dt * 5))" for a b
    using lerp_eases_to [OF assms, of 5 a b] by simp
  have e2: "eases_to 2 dt a b (lerp a b (dt * 2))" for a b
    using lerp_eases_to [OF assms, of 2 a b] by simp
  have e1: "eases_to 1 dt a b (lerp a b dt)" for a b
    using lerp_eases_to [OF assms, of 1 a b] by simp
  have pose: "eases_to 5 dt (root_rotation_z s)
      (atan2 (getTerrainHeight (roverPos_x (animate dt time s) + 1.2) (roverPos_z s)
            - getTerrainHeight (roverPos_x (animate dt time s) - 1.2) (roverPos_z s)) (1.2 * 2))
      (root_rotation_z (animate dt time s)) \<and>
    eases_to 5 dt (root_rotation_x s)
      (- atan2 (getTerrainHeight (roverPos_x (animate dt time s)) (roverPos_z s + 0.8)
              - getTerrainHeight (roverPos_x (animate dt time s)) (roverPos_z s - 0.8)) 1.6)
      (root_rotation_x (animate dt time s))"
    unfolding animate_def animate_on_pose by (simp add: e5)
  have sw: "(case missionState (update_position dt s) of
       DRIVE_OUT \<Rightarrow>
         eases_to 2 dt (arm_base_rotation_y s) 0 (arm_base_rotation_y (animate dt time s)) \<and>
         eases_to 2 dt (arm_shoulder_rotation_z s) (- (pi / 2))
           (arm_shoulder_rotation_z (animate dt time s))
     | SCAN \<Rightarrow>
         tail_base_rotation_y (animate dt time s) = sin (time * 2) * 0.8 \<and>
         tail_mid_rotation_z (animate dt time s) = pi / 3 + sin (time * 3) * 0.2
     | SAMPLE \<Rightarrow>
         eases_to 1 dt (tail_base_rotation_y s) 0 (tail_base_rotation_y (animate dt time s)) \<and>
         eases_to 2 dt (arm_base_rotation_y s) (pi / 4) (arm_base_rotation_y (animate dt time s)) \<and>
         eases_to 2 dt (arm_shoulder_rotation_z s) 0 (arm_shoulder_rotation_z (animate dt time s)) \<and>
         eases_to 2 dt (arm_elbow_rotation_z s) (- (pi / 2))
           (arm_elbow_rotation_z (animate dt time s))
     | RETURN \<Rightarrow>
         arm_base_rotation_y (animate dt time s) = arm_base_rotation_y s \<and>
         arm_shoulder_rotation_z (animate dt time s) = arm_shoulder_rotation_z s \<and>
         arm_elbow_rotation_z (animate dt time s) = arm_elbow_rotation_z s \<and>
         tail_base_rotation_y (animate dt time s) = tail_base_rotation_y s \<and>
         tail_mid_rotation_z (animate dt time s) = tail_mid_rotation_z s)"
  proof (cases "missionState (update_position dt s)")
    case DRIVE_OUT
    then have "missionState (before_switch getTerrainHeight dt s) = DRIVE_OUT"
      by (simp add: before_switch_fields)
    from mission_logic_appendages(1) [OF this, of dt time] DRIVE_OUT show ?thesis
      by (simp add: animate_def animate_on_switch before_switch_fields e2)
  next
    case SCAN
    then have "missionState (before_switch getTerrainHeight dt s) = SCAN"
      by (simp add: before_switch_fields)
    from mission_logic_appendages(2) [OF this, of dt time] SCAN show ?thesis
      by (simp add: animate_def animate_on_switch before_switch_fields)
  next
    case SAMPLE
    then have "missionState (before_switch getTerrainHeight dt s) = SAMPLE"
      by (simp add: before_switch_fields)
    from mission_logic_appendages(3) [OF this, of dt time] SAMPLE show ?thesis
      by (simp add: animate_def animate_on_switch before_switch_fields e2 e1)
  next
    case RETURN
    then have "missionState (before_switch getTerrainHeight dt s) = RETURN"
      by (simp add: before_switch_fields)
    from mission_logic_appendages(4) [OF this, of dt time] RETURN show ?thesis
      by (simp add: animate_def animate_on_switch before_switch_fields)
  qed
  from pose sw show ?thesis by blast
qed

theorem easing_is_linear_blend_witness:
  "(0::real) \<le> 1 / 4 \<and>
   arm_shoulder_rotation_z (animate (1 / 4) 1 initial_rover) = - (pi / 4) \<and>
   - (pi / 2) \<le> arm_shoulder_rotation_z (animate (1 / 4) 1 initial_rover) \<and>
   arm_shoulder_rotation_z (animate (1 / 4) 1 initial_rover) \<le> 0"
proof -
  have d: "(0::real) \<le> 1 / 4" by simp
  have m: "missionState (update_position (1 / 4) initial_rover) = DRIVE_OUT"
    by (simp add: update_position_fields initial_rover_def)
  have z: "arm_shoulder_rotation_z initial_rover = 0"
    by (simp add: initial_rover_def)
  from easing_is_linear_blend [OF d, of initial_rover 1] m
  have "eases_to 2 (1 / 4) (arm_shoulder_rotation_z initial_rover) (- (pi / 2))
           (arm_shoulder_rotation_z (animate (1 / 4) 1 initial_rover))"
    by simp
  then show ?thesis
    by (simp add: eases_to_def z)
qed


section \<open>Elapsed time\<close>

subsection \<open>Finite values stay finite below the overflow limit\<close>



































subsection \<open>Finite and non-finite outputs\<close>







section \<open>Teardown\<close>

text \<open>
  C9 (as stated, refuted): a second teardown in a row raises no error. From the mounted
  scene the first call detaches the render element; the second call finds it gone and
  raises \<open>NotFoundError\<close>.
\<close>

theorem second_teardown_raises:
  "teardown mounted =
     Inr \<lparr> resize_listener = False, mountRef_current = Some [], renderer_disposals = 1 \<rparr> \<and>
   teardown_twice mounted = Inl NotFoundError"
  by (simp add: teardown_twice_def teardown_def mounted_def removeChild_def Let_def)

text \<open>
  C9 (amended): one teardown call releases each resource once: it removes the resize
  listener, detaches the render element when the mount element is present, and disposes
  the renderer. A second call in a row raises \<open>NotFoundError\<close> when the mount element is
  still present, and disposes the renderer a second time when it is not.
\<close>

theorem teardown_not_idempotent:
  "(case mountRef_current r of
      Some children \<Rightarrow>
        (if renderer_domElement \<in> set children \<and> distinct children
         then teardown r =
                Inr \<lparr> resize_listener = False,
                      mountRef_current = Some (remove1 renderer_domElement children),
                      renderer_disposals = renderer_disposals r + 1 \<rparr> \<and>
              teardown_twice r = Inl NotFoundError
         else True)
    | None \<Rightarrow>
        teardown r =
          Inr \<lparr> resize_listener = False, mountRef_current = None,
                renderer_disposals = renderer_disposals r + 1 \<rparr> \<and>
        teardown_twice r =
          Inr \<lparr> resize_listener = False, mountRef_current = None,
                renderer_disposals = renderer_disposals r + 2 \<rparr>)"
  by (cases r) (auto simp: teardown_twice_def teardown_def removeChild_def Let_def split: option.splits)

theorem teardown_not_idempotent_witness:
  "teardown_twice mounted = Inl NotFoundError \<and>
   teardown_twice (mounted\<lparr>mountRef_current := None\<rparr>) =
     Inr \<lparr> resize_listener = False, mountRef_current = None, renderer_disposals = 2 \<rparr>"
  using teardown_not_idempotent [of mounted]
    teardown_not_idempotent [of "mounted\<lparr>mountRef_current := None\<rparr>"]
  by (simp add: mounted_def)


end
